theory Spec2Isabelle
  imports Main
begin

section \<open>The process environment\<close>

text \<open>
  The process environment maps variable names to values; a name that is not set has no
  entry. The Go runtime's \<^verbatim>\<open>os.Getenv(key)\<close> returns the value of the variable, which is
  the empty string when the variable is not present, and writes nothing. The read is
  modelled as a state-passing step: it takes the environment and returns the value read
  together with the environment it leaves behind.
\<close>

type_synonym environ = "string \<rightharpoonup> string"

definition Getenv :: "string \<Rightarrow> environ \<Rightarrow> string \<times> environ" where
  "Getenv key env = ((case env key of None \<Rightarrow> [] | Some v \<Rightarrow> v), env)"

section \<open>Errors\<close>

text \<open>
  A Go \<^verbatim>\<open>error\<close> made by \<^verbatim>\<open>errors.New(text)\<close> is an \<^verbatim>\<open>errorString\<close> whose method
  \<^verbatim>\<open>Error()\<close> returns \<^verbatim>\<open>text\<close>. A nil error is \<open>None\<close>, a non-nil one \<open>Some e\<close>.
\<close>

datatype error = errorString (Error: string)

definition errors_New :: "string \<Rightarrow> error" where
  "errors_New msg = errorString msg"

section \<open>The wrapped client library\<close>

text \<open>
  \<^verbatim>\<open>client.go\<close> imports \<^verbatim>\<open>github.com/sashabaranov/go-openai\<close>, which is not part of
  this repository. What \<^verbatim>\<open>ClientFromEnv\<close> uses of it is taken as a parameter:

  \<^item> the struct \<^verbatim>\<open>openai.ClientConfig\<close>, of which the code assigns the field
    \<^verbatim>\<open>APIVersion\<close>; every other field is the record's extension \<open>'m\<close>;
  \<^item> \<^verbatim>\<open>openai.DefaultAzureConfig(apiKey, baseURL)\<close>, returning a \<^verbatim>\<open>ClientConfig\<close>;
  \<^item> \<^verbatim>\<open>openai.NewClientWithConfig(config)\<close> and \<^verbatim>\<open>openai.NewClient(authToken)\<close>,
    returning a \<^verbatim>\<open>*openai.Client\<close>: a pointer, \<open>None\<close> when nil and \<open>Some c\<close> when it
    refers to the client \<open>c\<close>.
\<close>

record ClientConfig =
  APIVersion :: string

record ('m, 'c) openai =
  DefaultAzureConfig :: "string \<Rightarrow> string \<Rightarrow> 'm ClientConfig_scheme"
  NewClientWithConfig :: "'m ClientConfig_scheme \<Rightarrow> 'c option"
  NewClient :: "string \<Rightarrow> 'c option"

text \<open>
  The library's constructors build a client and return its address; they have no nil
  return. \<open>never_nil\<close> states this of a library given as parameter.
\<close>

definition never_nil :: "('m, 'c) openai \<Rightarrow> bool" where
  "never_nil lib \<longleftrightarrow>
     (\<forall>config. NewClientWithConfig lib config \<noteq> None) \<and> (\<forall>authToken. NewClient lib authToken \<noteq> None)"

section \<open>ClientFromEnv\<close>

text \<open>
  \<^verbatim>\<open>func ClientFromEnv() (*openai.Client, error)\<close> of \<^verbatim>\<open>client.go\<close>. The four reads come
  first, in the source's order; the \<^verbatim>\<open>switch kind\<close> has the two cases \<^verbatim>\<open>"azure"\<close> and
  \<^verbatim>\<open>"openai"\<close> and no default, so every other value of \<^verbatim>\<open>kind\<close> reaches the final
  \<^verbatim>\<open>return nil, errors.New(...)\<close>. The result is Go's pair of a handle and an error, each of
  which may be nil, with the environment after the call.
\<close>

definition ClientFromEnv ::
  "('m, 'c) openai \<Rightarrow> environ \<Rightarrow> ('c option \<times> error option) \<times> environ" where
  "ClientFromEnv lib env0 =
     (let (kind, env1) = Getenv ''OPENAI_TYPE'' env0;
          (endpoint, env2) = Getenv ''OPENAI_ENDPOINT'' env1;
          (version, env3) = Getenv ''OPENAI_API_VERSION'' env2;
          (key, env4) = Getenv ''OPENAI_API_KEY'' env3
      in if kind = ''azure'' then
           (let config = DefaultAzureConfig lib key endpoint;
                config = config\<lparr>APIVersion := version\<rparr>
            in ((NewClientWithConfig lib config, None), env4))
         else if kind = ''openai'' then
           ((NewClient lib key, None), env4)
         else
           ((None, Some (errors_New (''openaix: unknown OPENAI_TYPE: '' @ kind))), env4))"

section \<open>A concrete library\<close>

text \<open>
  A concrete instance of the parameter, at which the theorems below are instantiated. It
  follows the shape of go-openai's constructors: a configuration holds the token, the base
  URL, the API type and the API version; \<^verbatim>\<open>DefaultAzureConfig\<close> fills in the Azure type
  and the library's default version; \<^verbatim>\<open>NewClient\<close> is \<^verbatim>\<open>NewClientWithConfig\<close> of the
  default configuration; a client holds its configuration.
\<close>

datatype APIType = APITypeOpenAI | APITypeAzure

record Config = ClientConfig +
  authToken :: string
  BaseURL :: string
  APIType :: APIType

datatype Client = Client (config: Config)

definition DefaultConfig :: "string \<Rightarrow> Config" where
  "DefaultConfig tok =
     \<lparr>APIVersion = [], authToken = tok, BaseURL = ''https://api.openai.com/v1'',
      APIType = APITypeOpenAI\<rparr>"

definition go_openai :: "(unit Config_ext, Client) openai" where
  "go_openai =
     \<lparr>DefaultAzureConfig = (\<lambda>apiKey baseURL.
        \<lparr>APIVersion = ''2023-05-15'', authToken = apiKey, BaseURL = baseURL,
         APIType = APITypeAzure\<rparr>),
      NewClientWithConfig = (\<lambda>c. Some (Client c)),
      NewClient = (\<lambda>tok. Some (Client (DefaultConfig tok)))\<rparr>"

section \<open>The heap\<close>

text \<open>
  The handle and the error that \<^verbatim>\<open>ClientFromEnv\<close> returns are pointers. To tell two
  handles apart, the second model of the function keeps the heap they point into: a list
  of objects in which an address is an index, and an allocation appends the new object
  and returns its index. Nothing frees or overwrites an object.

  \<^item> \<^verbatim>\<open>errors.New\<close> allocates: the Go library documents that each call returns a distinct
    error value even if the text is identical.
  \<^item> A constructor of the wrapped library that returns a non-nil \<^verbatim>\<open>*openai.Client\<close>
    returns the address of a client it has just built (\<^verbatim>\<open>&Client{...}\<close>); \<open>return_pointer\<close>
    allocates the client that the library parameter yields. This is an assumption on
    the library, which is not part of the repository. What a client's own fields refer
    to stays inside the type \<open>'c\<close>.
\<close>

type_synonym addr = nat

datatype 'c object = ClientObject 'c | ErrorObject error

type_synonym 'c heap = "'c object list"

definition alloc :: "'c object \<Rightarrow> 'c heap \<Rightarrow> addr \<times> 'c heap" where
  "alloc obj h = (length h, h @ [obj])"

definition errors_New_heap :: "string \<Rightarrow> 'c heap \<Rightarrow> addr option \<times> 'c heap" where
  "errors_New_heap msg h = (let (a, h') = alloc (ErrorObject (errors_New msg)) h in (Some a, h'))"

definition return_pointer :: "'c option \<Rightarrow> 'c heap \<Rightarrow> addr option \<times> 'c heap" where
  "return_pointer r h =
     (case r of
        None \<Rightarrow> (None, h)
      | Some c \<Rightarrow> (let (a, h') = alloc (ClientObject c) h in (Some a, h')))"

text \<open>
  \<^verbatim>\<open>ClientFromEnv\<close> over the environment and the heap: the same reads, the same
  \<^verbatim>\<open>switch\<close> and the same three \<^verbatim>\<open>return\<close> statements as \<open>ClientFromEnv\<close> above, with
  the results as addresses. The source declares no package-level variable, so the
  environment and the heap are all the state there is between two calls.
\<close>

definition ClientFromEnv_heap ::
  "('m, 'c) openai \<Rightarrow> environ \<times> 'c heap \<Rightarrow> (addr option \<times> addr option) \<times> (environ \<times> 'c heap)" where
  "ClientFromEnv_heap lib s =
     (let (env0, h0) = s;
          (kind, env1) = Getenv ''OPENAI_TYPE'' env0;
          (endpoint, env2) = Getenv ''OPENAI_ENDPOINT'' env1;
          (version, env3) = Getenv ''OPENAI_API_VERSION'' env2;
          (key, env4) = Getenv ''OPENAI_API_KEY'' env3
      in if kind = ''azure'' then
           (let config = DefaultAzureConfig lib key endpoint;
                config = config\<lparr>APIVersion := version\<rparr>;
                (client, h1) = return_pointer (NewClientWithConfig lib config) h0
            in ((client, None), (env4, h1)))
         else if kind = ''openai'' then
           (let (client, h1) = return_pointer (NewClient lib key) h0
            in ((client, None), (env4, h1)))
         else
           (let (err, h1) = errors_New_heap (''openaix: unknown OPENAI_TYPE: '' @ kind) h0
            in ((None, err), (env4, h1))))"

section \<open>The three branches\<close>

lemma ClientFromEnv_azure:
  assumes "fst (Getenv ''OPENAI_TYPE'' env) = ''azure''"
  shows "ClientFromEnv lib env =
    ((NewClientWithConfig lib
        ((DefaultAzureConfig lib (fst (Getenv ''OPENAI_API_KEY'' env))
            (fst (Getenv ''OPENAI_ENDPOINT'' env)))
         \<lparr>APIVersion := fst (Getenv ''OPENAI_API_VERSION'' env)\<rparr>), None), env)"
  using assms by (simp add: ClientFromEnv_def Getenv_def Let_def)

lemma ClientFromEnv_openai:
  assumes "fst (Getenv ''OPENAI_TYPE'' env) = ''openai''"
  shows "ClientFromEnv lib env =
    ((NewClient lib (fst (Getenv ''OPENAI_API_KEY'' env)), None), env)"
  using assms by (simp add: ClientFromEnv_def Getenv_def Let_def)

lemma ClientFromEnv_fallthrough:
  assumes "fst (Getenv ''OPENAI_TYPE'' env) \<noteq> ''azure''"
    and "fst (Getenv ''OPENAI_TYPE'' env) \<noteq> ''openai''"
  shows "ClientFromEnv lib env =
    ((None, Some (errors_New (''openaix: unknown OPENAI_TYPE: '' @ fst (Getenv ''OPENAI_TYPE'' env)))),
     env)"
  using assms by (simp add: ClientFromEnv_def Getenv_def Let_def)

lemma never_nil_go_openai: "never_nil go_openai"
  by (simp add: never_nil_def go_openai_def)

lemma ClientFromEnv_leaves_env: "snd (ClientFromEnv lib env) = env"
  by (simp add: ClientFromEnv_def Getenv_def Let_def)

lemma ClientFromEnv_result:
  "fst (ClientFromEnv lib env) =
     (let kind = fst (Getenv ''OPENAI_TYPE'' env);
          endpoint = fst (Getenv ''OPENAI_ENDPOINT'' env);
          version = fst (Getenv ''OPENAI_API_VERSION'' env);
          key = fst (Getenv ''OPENAI_API_KEY'' env)
      in if kind = ''azure'' then
           (NewClientWithConfig lib ((DefaultAzureConfig lib key endpoint)\<lparr>APIVersion := version\<rparr>),
            None)
         else if kind = ''openai'' then (NewClient lib key, None)
         else (None, Some (errors_New (''openaix: unknown OPENAI_TYPE: '' @ kind))))"
  by (simp add: ClientFromEnv_def Getenv_def Let_def)

lemma ClientFromEnv_same_reads:
  assumes "fst (Getenv ''OPENAI_TYPE'' env) = fst (Getenv ''OPENAI_TYPE'' env')"
    and "fst (Getenv ''OPENAI_ENDPOINT'' env) = fst (Getenv ''OPENAI_ENDPOINT'' env')"
    and "fst (Getenv ''OPENAI_API_VERSION'' env) = fst (Getenv ''OPENAI_API_VERSION'' env')"
    and "fst (Getenv ''OPENAI_API_KEY'' env) = fst (Getenv ''OPENAI_API_KEY'' env')"
  shows "fst (ClientFromEnv lib env) = fst (ClientFromEnv lib env')"
  by (simp only: ClientFromEnv_result assms)

lemma Getenv_unset_or_empty:
  "fst (Getenv key (env(k := None))) = fst (Getenv key (env(k \<mapsto> [])))"
  by (simp add: Getenv_def)

lemma ClientFromEnv_heap_result:
  "ClientFromEnv_heap lib (env, h) =
     (case fst (ClientFromEnv lib env) of
        (Some c, e) \<Rightarrow> ((Some (length h), None), (env, h @ [ClientObject c]))
      | (None, Some e) \<Rightarrow> ((None, Some (length h)), (env, h @ [ErrorObject e]))
      | (None, None) \<Rightarrow> ((None, None), (env, h)))"
  by (simp add: ClientFromEnv_heap_def ClientFromEnv_result Getenv_def Let_def
      return_pointer_def errors_New_heap_def alloc_def split: option.splits)

section \<open>The unknown selector\<close>

text \<open>
  C2. When \<^verbatim>\<open>OPENAI_TYPE\<close> is none of the empty string, \<^verbatim>\<open>"openai"\<close> and \<^verbatim>\<open>"azure"\<close>,
  \<^verbatim>\<open>ClientFromEnv\<close> returns a nil handle and a non-nil error, and the error's message is
  the fixed prefix followed by the offending selector value. This holds for every library,
  since the branch calls none of its constructors.
\<close>

theorem unknown_selector_rejected:
  assumes "fst (Getenv ''OPENAI_TYPE'' env) \<notin> {[], ''openai'', ''azure''}"
  shows "\<exists>e. fst (ClientFromEnv lib env) = (None, Some e) \<and>
    Error e = ''openaix: unknown OPENAI_TYPE: '' @ fst (Getenv ''OPENAI_TYPE'' env)"
proof -
  from assms have "fst (Getenv ''OPENAI_TYPE'' env) \<noteq> ''azure''"
    and "fst (Getenv ''OPENAI_TYPE'' env) \<noteq> ''openai''"
    by auto
  then show ?thesis
    by (simp add: ClientFromEnv_fallthrough errors_New_def)
qed

theorem unknown_selector_rejected_bogus:
  "fst (Getenv ''OPENAI_TYPE'' [''OPENAI_TYPE'' \<mapsto> ''bogus'']) \<notin> {[], ''openai'', ''azure''} \<and>
   (\<exists>e. fst (ClientFromEnv go_openai [''OPENAI_TYPE'' \<mapsto> ''bogus'']) = (None, Some e) \<and>
      Error e = ''openaix: unknown OPENAI_TYPE: bogus'')"
proof -
  have h: "fst (Getenv ''OPENAI_TYPE'' [''OPENAI_TYPE'' \<mapsto> ''bogus'']) \<notin> {[], ''openai'', ''azure''}"
    by (simp add: Getenv_def)
  have v: "fst (Getenv ''OPENAI_TYPE'' [''OPENAI_TYPE'' \<mapsto> ''bogus'']) = ''bogus''"
    by (simp add: Getenv_def)
  from unknown_selector_rejected [OF h, of go_openai] show ?thesis
    unfolding v using h by simp
qed

section \<open>The default selector\<close>

text \<open>
  C1. With \<^verbatim>\<open>OPENAI_TYPE\<close> unset, or set to the empty string, and
  \<^verbatim>\<open>OPENAI_API_KEY=sk-test\<close>, the \<^verbatim>\<open>switch\<close> matches neither case: \<^verbatim>\<open>ClientFromEnv\<close>
  returns a nil handle and the unknown-type error with an empty selector, where the
  README documents \<^verbatim>\<open>openai\<close> as the default. The theorem evaluates the code at both
  environments.
\<close>

theorem empty_selector_is_rejected:
  "ClientFromEnv go_openai [''OPENAI_API_KEY'' \<mapsto> ''sk-test''] =
     ((None, Some (errorString ''openaix: unknown OPENAI_TYPE: '')),
      [''OPENAI_API_KEY'' \<mapsto> ''sk-test'']) \<and>
   ClientFromEnv go_openai [''OPENAI_TYPE'' \<mapsto> [], ''OPENAI_API_KEY'' \<mapsto> ''sk-test''] =
     ((None, Some (errorString ''openaix: unknown OPENAI_TYPE: '')),
      [''OPENAI_TYPE'' \<mapsto> [], ''OPENAI_API_KEY'' \<mapsto> ''sk-test''])"
  by (simp add: ClientFromEnv_def Getenv_def errors_New_def)

section \<open>The Azure branch\<close>

text \<open>
  C3. When \<^verbatim>\<open>OPENAI_TYPE\<close> is \<^verbatim>\<open>"azure"\<close>, and the library's constructors never return
  nil, \<^verbatim>\<open>ClientFromEnv\<close> returns a nil error and the non-nil handle that
  \<^verbatim>\<open>NewClientWithConfig\<close> builds from \<^verbatim>\<open>DefaultAzureConfig(key, endpoint)\<close> with its
  \<^verbatim>\<open>APIVersion\<close> overwritten: the field equals the value of \<^verbatim>\<open>OPENAI_API_VERSION\<close> as
  read, and every other field is as \<^verbatim>\<open>DefaultAzureConfig\<close> left it.
\<close>

theorem azure_handle_configuration:
  assumes "fst (Getenv ''OPENAI_TYPE'' env) = ''azure''" and "never_nil lib"
  shows
    "let key = fst (Getenv ''OPENAI_API_KEY'' env);
         endpoint = fst (Getenv ''OPENAI_ENDPOINT'' env);
         version = fst (Getenv ''OPENAI_API_VERSION'' env);
         config = (DefaultAzureConfig lib key endpoint)\<lparr>APIVersion := version\<rparr>
     in fst (ClientFromEnv lib env) = (NewClientWithConfig lib config, None) \<and>
        NewClientWithConfig lib config \<noteq> None \<and>
        APIVersion config = version \<and>
        ClientConfig.more config = ClientConfig.more (DefaultAzureConfig lib key endpoint)"
  using assms by (simp add: ClientFromEnv_azure never_nil_def Let_def)

theorem azure_handle_configuration_scenario:
  "fst (Getenv ''OPENAI_TYPE''
      [''OPENAI_TYPE'' \<mapsto> ''azure'', ''OPENAI_ENDPOINT'' \<mapsto> ''https://x.openai.azure.com'',
       ''OPENAI_API_VERSION'' \<mapsto> ''2024-05-01'', ''OPENAI_API_KEY'' \<mapsto> ''sk-test'']) = ''azure'' \<and>
   never_nil go_openai \<and>
   fst (ClientFromEnv go_openai
      [''OPENAI_TYPE'' \<mapsto> ''azure'', ''OPENAI_ENDPOINT'' \<mapsto> ''https://x.openai.azure.com'',
       ''OPENAI_API_VERSION'' \<mapsto> ''2024-05-01'', ''OPENAI_API_KEY'' \<mapsto> ''sk-test'']) =
     (Some (Client \<lparr>APIVersion = ''2024-05-01'', authToken = ''sk-test'',
                     BaseURL = ''https://x.openai.azure.com'', APIType = APITypeAzure\<rparr>), None)"
proof -
  let ?env = "[''OPENAI_TYPE'' \<mapsto> ''azure'', ''OPENAI_ENDPOINT'' \<mapsto> ''https://x.openai.azure.com'',
       ''OPENAI_API_VERSION'' \<mapsto> ''2024-05-01'', ''OPENAI_API_KEY'' \<mapsto> ''sk-test'']"
  have h: "fst (Getenv ''OPENAI_TYPE'' ?env) = ''azure''"
    by (simp add: Getenv_def)
  note n = never_nil_go_openai
  from azure_handle_configuration [OF h n] show ?thesis
    using h n by (simp add: Getenv_def go_openai_def Let_def)
qed

section \<open>No validation of the values\<close>

text \<open>
  C4. \<^verbatim>\<open>ClientFromEnv\<close> checks none of the endpoint, the API version and the API key: when
  \<^verbatim>\<open>OPENAI_TYPE\<close> is \<^verbatim>\<open>"azure"\<close> or \<^verbatim>\<open>"openai"\<close>, and the library's constructors never
  return nil, the result is a non-nil handle and a nil error whatever the other three
  variables hold, also when all three are unset or empty.
\<close>

theorem explicit_selector_always_succeeds:
  assumes "fst (Getenv ''OPENAI_TYPE'' env) \<in> {''azure'', ''openai''}" and "never_nil lib"
  shows "\<exists>handle. fst (ClientFromEnv lib env) = (Some handle, None)"
proof -
  from assms(1) consider "fst (Getenv ''OPENAI_TYPE'' env) = ''azure''"
    | "fst (Getenv ''OPENAI_TYPE'' env) = ''openai''"
    by auto
  then show ?thesis
  proof cases
    case 1
    with assms(2) show ?thesis
      by (simp add: ClientFromEnv_azure never_nil_def)
  next
    case 2
    with assms(2) show ?thesis
      by (simp add: ClientFromEnv_openai never_nil_def)
  qed
qed

theorem explicit_selector_always_succeeds_empty_values:
  "fst (Getenv ''OPENAI_TYPE''
      [''OPENAI_TYPE'' \<mapsto> ''azure'', ''OPENAI_ENDPOINT'' \<mapsto> [], ''OPENAI_API_VERSION'' \<mapsto> [],
       ''OPENAI_API_KEY'' \<mapsto> []]) \<in> {''azure'', ''openai''} \<and>
   fst (Getenv ''OPENAI_TYPE'' [''OPENAI_TYPE'' \<mapsto> ''openai'']) \<in> {''azure'', ''openai''} \<and>
   never_nil go_openai \<and>
   (\<exists>handle. fst (ClientFromEnv go_openai
      [''OPENAI_TYPE'' \<mapsto> ''azure'', ''OPENAI_ENDPOINT'' \<mapsto> [], ''OPENAI_API_VERSION'' \<mapsto> [],
       ''OPENAI_API_KEY'' \<mapsto> []]) = (Some handle, None)) \<and>
   (\<exists>handle. fst (ClientFromEnv go_openai [''OPENAI_TYPE'' \<mapsto> ''openai'']) = (Some handle, None))"
proof -
  let ?azure = "[''OPENAI_TYPE'' \<mapsto> ''azure'', ''OPENAI_ENDPOINT'' \<mapsto> [],
       ''OPENAI_API_VERSION'' \<mapsto> [], ''OPENAI_API_KEY'' \<mapsto> []]"
  let ?openai = "[''OPENAI_TYPE'' \<mapsto> ''openai'']"
  have a: "fst (Getenv ''OPENAI_TYPE'' ?azure) \<in> {''azure'', ''openai''}"
    by (simp add: Getenv_def)
  have b: "fst (Getenv ''OPENAI_TYPE'' ?openai) \<in> {''azure'', ''openai''}"
    by (simp add: Getenv_def)
  note n = never_nil_go_openai
  from explicit_selector_always_succeeds [OF a n] explicit_selector_always_succeeds [OF b n]
  show ?thesis
    using a b n by blast
qed

section \<open>Exact match of the selector\<close>

text \<open>
  C5. The selector is compared by equality of strings: whenever \<^verbatim>\<open>OPENAI_TYPE\<close> is not
  exactly \<^verbatim>\<open>"azure"\<close> and not exactly \<^verbatim>\<open>"openai"\<close>, \<^verbatim>\<open>ClientFromEnv\<close> takes neither
  construction branch: it returns the nil handle and the non-nil error of the final
  \<^verbatim>\<open>return\<close> (a construction branch returns a nil error), the same for every library.
  \<^verbatim>\<open>"Azure"\<close>, \<^verbatim>\<open>"OPENAI"\<close> and \<^verbatim>\<open>"openai "\<close> are such selectors.
\<close>

theorem selector_match_is_exact:
  assumes "fst (Getenv ''OPENAI_TYPE'' env) \<noteq> ''azure''"
    and "fst (Getenv ''OPENAI_TYPE'' env) \<noteq> ''openai''"
  shows "fst (ClientFromEnv lib env) =
      (None, Some (errors_New (''openaix: unknown OPENAI_TYPE: '' @ fst (Getenv ''OPENAI_TYPE'' env)))) \<and>
    snd (fst (ClientFromEnv lib env)) \<noteq> None"
  using assms by (simp add: ClientFromEnv_fallthrough)

theorem selector_match_is_exact_variants:
  "fst (Getenv ''OPENAI_TYPE'' [''OPENAI_TYPE'' \<mapsto> ''Azure'']) \<noteq> ''azure'' \<and>
   fst (Getenv ''OPENAI_TYPE'' [''OPENAI_TYPE'' \<mapsto> ''Azure'']) \<noteq> ''openai'' \<and>
   fst (ClientFromEnv go_openai [''OPENAI_TYPE'' \<mapsto> ''Azure'']) =
     (None, Some (errorString ''openaix: unknown OPENAI_TYPE: Azure'')) \<and>
   fst (ClientFromEnv go_openai [''OPENAI_TYPE'' \<mapsto> ''OPENAI'']) =
     (None, Some (errorString ''openaix: unknown OPENAI_TYPE: OPENAI'')) \<and>
   fst (ClientFromEnv go_openai [''OPENAI_TYPE'' \<mapsto> ''openai '']) =
     (None, Some (errorString ''openaix: unknown OPENAI_TYPE: openai ''))"
proof -
  have a: "fst (Getenv ''OPENAI_TYPE'' [''OPENAI_TYPE'' \<mapsto> ''Azure'']) = ''Azure''"
    and b: "fst (Getenv ''OPENAI_TYPE'' [''OPENAI_TYPE'' \<mapsto> ''OPENAI'']) = ''OPENAI''"
    and c: "fst (Getenv ''OPENAI_TYPE'' [''OPENAI_TYPE'' \<mapsto> ''openai '']) = ''openai ''"
    by (simp_all add: Getenv_def)
  have "fst (ClientFromEnv go_openai [''OPENAI_TYPE'' \<mapsto> ''Azure'']) =
      (None, Some (errorString ''openaix: unknown OPENAI_TYPE: Azure''))"
    using selector_match_is_exact [of "[''OPENAI_TYPE'' \<mapsto> ''Azure'']" go_openai]
    by (simp add: a errors_New_def)
  moreover have "fst (ClientFromEnv go_openai [''OPENAI_TYPE'' \<mapsto> ''OPENAI'']) =
      (None, Some (errorString ''openaix: unknown OPENAI_TYPE: OPENAI''))"
    using selector_match_is_exact [of "[''OPENAI_TYPE'' \<mapsto> ''OPENAI'']" go_openai]
    by (simp add: b errors_New_def)
  moreover have "fst (ClientFromEnv go_openai [''OPENAI_TYPE'' \<mapsto> ''openai '']) =
      (None, Some (errorString ''openaix: unknown OPENAI_TYPE: openai ''))"
    using selector_match_is_exact [of "[''OPENAI_TYPE'' \<mapsto> ''openai '']" go_openai]
    by (simp add: c errors_New_def)
  ultimately show ?thesis
    by (simp add: a)
qed

section \<open>Two calls\<close>

text \<open>
  C6. Run \<^verbatim>\<open>ClientFromEnv\<close> twice, the second call in the environment and heap that the
  first one left. Then:

  \<^item> neither call changes the environment;
  \<^item> both calls have the same outcome: the handles are both nil or both non-nil, and so
    are the errors;
  \<^item> neither call changes an object that was on the heap before it, so the second call
    leaves what the first one returned as it was;
  \<^item> two non-nil handles are different addresses, each allocated by its own call, and
    the objects at them are equal: the client that the library builds from the values
    read, so the two handles have equal configuration;
  \<^item> two non-nil errors are different addresses holding equal error values.

  A resolver that kept the client of one call and handed it out again, that wrote to the
  environment, or whose result depended on earlier calls would not satisfy this.
\<close>

theorem ClientFromEnv_calls_independent:
  assumes first: "ClientFromEnv_heap lib (env, h) = ((p1, e1), (env1, h1))"
    and second: "ClientFromEnv_heap lib (env1, h1) = ((p2, e2), (env2, h2))"
  shows "env1 = env \<and> env2 = env \<and>
    (p2 = None) = (p1 = None) \<and> (e2 = None) = (e1 = None) \<and>
    take (length h) h1 = h \<and> take (length h1) h2 = h1 \<and>
    (\<forall>a1 a2. p1 = Some a1 \<and> p2 = Some a2 \<longrightarrow>
       length h \<le> a1 \<and> a1 < length h1 \<and> length h1 \<le> a2 \<and> a2 < length h2 \<and> a1 \<noteq> a2 \<and>
       h2 ! a1 = h1 ! a1 \<and> h2 ! a2 = h2 ! a1 \<and>
       (\<exists>c. h2 ! a1 = ClientObject c \<and> fst (fst (ClientFromEnv lib env)) = Some c)) \<and>
    (\<forall>b1 b2. e1 = Some b1 \<and> e2 = Some b2 \<longrightarrow>
       length h \<le> b1 \<and> b1 < length h1 \<and> length h1 \<le> b2 \<and> b2 < length h2 \<and> b1 \<noteq> b2 \<and>
       h2 ! b1 = h1 ! b1 \<and> h2 ! b2 = h2 ! b1 \<and>
       (\<exists>e. h2 ! b1 = ErrorObject e \<and> snd (fst (ClientFromEnv lib env)) = Some e))"
proof -
  obtain c e where r: "fst (ClientFromEnv lib env) = (c, e)"
    by (cases "fst (ClientFromEnv lib env)")
  show ?thesis
  proof (cases c)
    case (Some cl)
    have step: "ClientFromEnv_heap lib (env, k) = ((Some (length k), None), (env, k @ [ClientObject cl]))"
      for k
      by (simp add: ClientFromEnv_heap_result r Some)
    from first have 1: "p1 = Some (length h)" "e1 = None" "env1 = env" "h1 = h @ [ClientObject cl]"
      by (simp_all add: step)
    from second have 2: "p2 = Some (length h1)" "e2 = None" "env2 = env"
      "h2 = h1 @ [ClientObject cl]"
      by (simp_all add: step 1)
    show ?thesis
      by (simp add: 1 2 r Some nth_append)
  next
    case None
    show ?thesis
    proof (cases e)
      case (Some er)
      have step: "ClientFromEnv_heap lib (env, k) = ((None, Some (length k)), (env, k @ [ErrorObject er]))"
        for k
        by (simp add: ClientFromEnv_heap_result r None Some)
      from first have 1: "p1 = None" "e1 = Some (length h)" "env1 = env" "h1 = h @ [ErrorObject er]"
        by (simp_all add: step)
      from second have 2: "p2 = None" "e2 = Some (length h1)" "env2 = env"
        "h2 = h1 @ [ErrorObject er]"
        by (simp_all add: step 1)
      show ?thesis
        by (simp add: 1 2 r Some nth_append)
    next
      case nil: None
      have step: "ClientFromEnv_heap lib (env, k) = ((None, None), (env, k))" for k
        by (simp add: ClientFromEnv_heap_result r None nil)
      from first have 1: "p1 = None" "e1 = None" "env1 = env" "h1 = h"
        by (simp_all add: step)
      from second have 2: "p2 = None" "e2 = None" "env2 = env" "h2 = h1"
        by (simp_all add: step 1)
      show ?thesis
        by (simp add: 1 2)
    qed
  qed
qed

theorem ClientFromEnv_calls_independent_scenarios:
  "ClientFromEnv_heap go_openai
     ([''OPENAI_TYPE'' \<mapsto> ''azure'', ''OPENAI_API_VERSION'' \<mapsto> ''2024-05-01'',
       ''OPENAI_API_KEY'' \<mapsto> ''sk-test''], []) =
     ((Some 0, None),
      ([''OPENAI_TYPE'' \<mapsto> ''azure'', ''OPENAI_API_VERSION'' \<mapsto> ''2024-05-01'',
        ''OPENAI_API_KEY'' \<mapsto> ''sk-test''],
       [ClientObject (Client \<lparr>APIVersion = ''2024-05-01'', authToken = ''sk-test'',
          BaseURL = [], APIType = APITypeAzure\<rparr>)])) \<and>
   ClientFromEnv_heap go_openai
     ([''OPENAI_TYPE'' \<mapsto> ''azure'', ''OPENAI_API_VERSION'' \<mapsto> ''2024-05-01'',
       ''OPENAI_API_KEY'' \<mapsto> ''sk-test''],
      [ClientObject (Client \<lparr>APIVersion = ''2024-05-01'', authToken = ''sk-test'',
         BaseURL = [], APIType = APITypeAzure\<rparr>)]) =
     ((Some 1, None),
      ([''OPENAI_TYPE'' \<mapsto> ''azure'', ''OPENAI_API_VERSION'' \<mapsto> ''2024-05-01'',
        ''OPENAI_API_KEY'' \<mapsto> ''sk-test''],
       [ClientObject (Client \<lparr>APIVersion = ''2024-05-01'', authToken = ''sk-test'',
          BaseURL = [], APIType = APITypeAzure\<rparr>),
        ClientObject (Client \<lparr>APIVersion = ''2024-05-01'', authToken = ''sk-test'',
          BaseURL = [], APIType = APITypeAzure\<rparr>)])) \<and>
   ClientFromEnv_heap go_openai ([''OPENAI_TYPE'' \<mapsto> ''bogus''], []) =
     ((None, Some 0),
      ([''OPENAI_TYPE'' \<mapsto> ''bogus''],
       [ErrorObject (errorString ''openaix: unknown OPENAI_TYPE: bogus'')])) \<and>
   ClientFromEnv_heap go_openai
     ([''OPENAI_TYPE'' \<mapsto> ''bogus''],
      [ErrorObject (errorString ''openaix: unknown OPENAI_TYPE: bogus'')]) =
     ((None, Some 1),
      ([''OPENAI_TYPE'' \<mapsto> ''bogus''],
       [ErrorObject (errorString ''openaix: unknown OPENAI_TYPE: bogus''),
        ErrorObject (errorString ''openaix: unknown OPENAI_TYPE: bogus'')]))"
proof -
  let ?azure = "[''OPENAI_TYPE'' \<mapsto> ''azure'', ''OPENAI_API_VERSION'' \<mapsto> ''2024-05-01'',
       ''OPENAI_API_KEY'' \<mapsto> ''sk-test'']"
  let ?client = "ClientObject (Client \<lparr>APIVersion = ''2024-05-01'', authToken = ''sk-test'',
         BaseURL = [], APIType = APITypeAzure\<rparr>)"
  let ?bogus = "[''OPENAI_TYPE'' \<mapsto> ''bogus'']"
  let ?err = "ErrorObject (errorString ''openaix: unknown OPENAI_TYPE: bogus'') :: Client object"
  have a1: "ClientFromEnv_heap go_openai (?azure, []) = ((Some 0, None), (?azure, [?client]))"
    by (simp add: ClientFromEnv_heap_def Getenv_def go_openai_def return_pointer_def alloc_def)
  have a2: "ClientFromEnv_heap go_openai (?azure, [?client]) =
      ((Some 1, None), (?azure, [?client, ?client]))"
    by (simp add: ClientFromEnv_heap_def Getenv_def go_openai_def return_pointer_def alloc_def)
  have b1: "ClientFromEnv_heap go_openai (?bogus, []) = ((None, Some 0), (?bogus, [?err]))"
    by (simp add: ClientFromEnv_heap_def Getenv_def errors_New_heap_def errors_New_def alloc_def)
  have b2: "ClientFromEnv_heap go_openai (?bogus, [?err]) =
      ((None, Some 1), (?bogus, [?err, ?err]))"
    by (simp add: ClientFromEnv_heap_def Getenv_def errors_New_heap_def errors_New_def alloc_def)
  from ClientFromEnv_calls_independent [OF a1 a2] ClientFromEnv_calls_independent [OF b1 b2]
    a1 a2 b1 b2
  show ?thesis
    by simp
qed

section \<open>The variables read\<close>

text \<open>
  C7. The pair of handle and error depends on the environment only through the values
  read for \<^verbatim>\<open>OPENAI_TYPE\<close>, \<^verbatim>\<open>OPENAI_ENDPOINT\<close>, \<^verbatim>\<open>OPENAI_API_VERSION\<close> and
  \<^verbatim>\<open>OPENAI_API_KEY\<close>: two environments in which these four reads agree give equal
  results, whatever else they hold.
\<close>

theorem ClientFromEnv_depends_on_four_variables:
  assumes "\<forall>name \<in> {''OPENAI_TYPE'', ''OPENAI_ENDPOINT'', ''OPENAI_API_VERSION'', ''OPENAI_API_KEY''}.
      fst (Getenv name env) = fst (Getenv name env')"
  shows "fst (ClientFromEnv lib env) = fst (ClientFromEnv lib env')"
  using assms by (intro ClientFromEnv_same_reads) simp_all

theorem ClientFromEnv_depends_on_four_variables_other_differs:
  "(\<exists>name. [''OPENAI_TYPE'' \<mapsto> ''openai'', ''OPENAI_API_KEY'' \<mapsto> ''sk-test'', ''HOME'' \<mapsto> ''/root''] name \<noteq>
      [''OPENAI_TYPE'' \<mapsto> ''openai'', ''OPENAI_API_KEY'' \<mapsto> ''sk-test'', ''PATH'' \<mapsto> ''/bin''] name) \<and>
   fst (ClientFromEnv go_openai
      [''OPENAI_TYPE'' \<mapsto> ''openai'', ''OPENAI_API_KEY'' \<mapsto> ''sk-test'', ''HOME'' \<mapsto> ''/root'']) =
   fst (ClientFromEnv go_openai
      [''OPENAI_TYPE'' \<mapsto> ''openai'', ''OPENAI_API_KEY'' \<mapsto> ''sk-test'', ''PATH'' \<mapsto> ''/bin''])"
proof -
  let ?e = "[''OPENAI_TYPE'' \<mapsto> ''openai'', ''OPENAI_API_KEY'' \<mapsto> ''sk-test'', ''HOME'' \<mapsto> ''/root'']"
  let ?e' = "[''OPENAI_TYPE'' \<mapsto> ''openai'', ''OPENAI_API_KEY'' \<mapsto> ''sk-test'', ''PATH'' \<mapsto> ''/bin'']"
  have h: "\<forall>name \<in> {''OPENAI_TYPE'', ''OPENAI_ENDPOINT'', ''OPENAI_API_VERSION'', ''OPENAI_API_KEY''}.
      fst (Getenv name ?e) = fst (Getenv name ?e')"
    by (simp add: Getenv_def)
  have d: "?e ''HOME'' \<noteq> ?e' ''HOME''"
    by simp
  from ClientFromEnv_depends_on_four_variables [OF h, of go_openai] d show ?thesis
    by blast
qed

section \<open>The shape of the result\<close>

text \<open>
  C8. For a library whose constructors never return nil, exactly one of the handle and the
  error that \<^verbatim>\<open>ClientFromEnv\<close> returns is nil: under the selectors \<^verbatim>\<open>"azure"\<close> and
  \<^verbatim>\<open>"openai"\<close> the handle is non-nil and the error nil, under every other selector the
  handle is nil and the error non-nil.
\<close>

theorem exactly_one_of_handle_and_error:
  assumes "never_nil lib"
  shows
    "(let kind = fst (Getenv ''OPENAI_TYPE'' env);
          (handle, err) = fst (ClientFromEnv lib env)
      in (if kind = ''azure'' \<or> kind = ''openai''
          then handle \<noteq> None \<and> err = None
          else handle = None \<and> err \<noteq> None) \<and>
         (handle = None) \<noteq> (err = None))"
proof -
  consider "fst (Getenv ''OPENAI_TYPE'' env) = ''azure''"
    | "fst (Getenv ''OPENAI_TYPE'' env) = ''openai''"
    | "fst (Getenv ''OPENAI_TYPE'' env) \<noteq> ''azure''" "fst (Getenv ''OPENAI_TYPE'' env) \<noteq> ''openai''"
    by blast
  then show ?thesis
  proof cases
    case 1
    with assms show ?thesis
      by (simp add: ClientFromEnv_azure never_nil_def)
  next
    case 2
    with assms show ?thesis
      by (simp add: ClientFromEnv_openai never_nil_def)
  next
    case 3
    then show ?thesis
      by (simp add: ClientFromEnv_fallthrough)
  qed
qed

theorem exactly_one_of_handle_and_error_samples:
  "never_nil go_openai \<and>
   fst (ClientFromEnv go_openai [''OPENAI_TYPE'' \<mapsto> ''openai'', ''OPENAI_API_KEY'' \<mapsto> ''sk-test'']) =
     (Some (Client (DefaultConfig ''sk-test'')), None) \<and>
   (let (handle, err) = fst (ClientFromEnv go_openai [''OPENAI_TYPE'' \<mapsto> ''bogus''])
    in handle = None \<and> err \<noteq> None)"
proof -
  note n = never_nil_go_openai
  have a: "fst (Getenv ''OPENAI_TYPE'' [''OPENAI_TYPE'' \<mapsto> ''openai'', ''OPENAI_API_KEY'' \<mapsto> ''sk-test'']) =
      ''openai''"
    and b: "fst (Getenv ''OPENAI_TYPE'' [''OPENAI_TYPE'' \<mapsto> ''bogus'']) = ''bogus''"
    by (simp_all add: Getenv_def)
  have "fst (ClientFromEnv go_openai [''OPENAI_TYPE'' \<mapsto> ''openai'', ''OPENAI_API_KEY'' \<mapsto> ''sk-test'']) =
      (Some (Client (DefaultConfig ''sk-test'')), None)"
    using exactly_one_of_handle_and_error
      [OF n, of "[''OPENAI_TYPE'' \<mapsto> ''openai'', ''OPENAI_API_KEY'' \<mapsto> ''sk-test'']"]
    by (simp add: a ClientFromEnv_result Getenv_def go_openai_def split_def)
  moreover have "let (handle, err) = fst (ClientFromEnv go_openai [''OPENAI_TYPE'' \<mapsto> ''bogus''])
    in handle = None \<and> err \<noteq> None"
    using exactly_one_of_handle_and_error [OF n, of "[''OPENAI_TYPE'' \<mapsto> ''bogus'']"]
    by (simp add: b split_def Let_def)
  ultimately show ?thesis
    using n by simp
qed

section \<open>The error message\<close>

text \<open>
  C9. Whenever \<^verbatim>\<open>ClientFromEnv\<close> returns a non-nil error, the error's message is the
  string \<^verbatim>\<open>"openaix: unknown OPENAI_TYPE: "\<close> followed by the value read for
  \<^verbatim>\<open>OPENAI_TYPE\<close>, unchanged.
\<close>

theorem failure_message_names_selector:
  assumes "snd (fst (ClientFromEnv lib env)) = Some e"
  shows "Error e = ''openaix: unknown OPENAI_TYPE: '' @ fst (Getenv ''OPENAI_TYPE'' env)"
  using assms
  by (simp add: ClientFromEnv_result errors_New_def Let_def split: if_splits) auto

theorem failure_message_names_selector_bogus:
  "snd (fst (ClientFromEnv go_openai [''OPENAI_TYPE'' \<mapsto> ''bogus'', ''OPENAI_API_KEY'' \<mapsto> ''sk-test''])) =
     Some (errorString ''openaix: unknown OPENAI_TYPE: bogus'') \<and>
   Error (errorString ''openaix: unknown OPENAI_TYPE: bogus'') =
     ''openaix: unknown OPENAI_TYPE: '' @
     fst (Getenv ''OPENAI_TYPE'' [''OPENAI_TYPE'' \<mapsto> ''bogus'', ''OPENAI_API_KEY'' \<mapsto> ''sk-test''])"
proof -
  have h: "snd (fst (ClientFromEnv go_openai
      [''OPENAI_TYPE'' \<mapsto> ''bogus'', ''OPENAI_API_KEY'' \<mapsto> ''sk-test''])) =
     Some (errorString ''openaix: unknown OPENAI_TYPE: bogus'')"
    by (simp add: ClientFromEnv_def Getenv_def errors_New_def)
  from failure_message_names_selector [OF h] h show ?thesis
    by simp
qed

section \<open>Unset and empty variables\<close>

text \<open>
  C10. \<^verbatim>\<open>ClientFromEnv\<close> returns the same handle and error whether a variable is absent
  from the environment or present with the empty string as its value. This holds for
  every variable name, so for each of \<^verbatim>\<open>OPENAI_TYPE\<close>, \<^verbatim>\<open>OPENAI_ENDPOINT\<close>,
  \<^verbatim>\<open>OPENAI_API_VERSION\<close> and \<^verbatim>\<open>OPENAI_API_KEY\<close>.
\<close>

theorem unset_equals_empty:
  "fst (ClientFromEnv lib (env(name := None))) = fst (ClientFromEnv lib (env(name \<mapsto> [])))"
  by (rule ClientFromEnv_same_reads) (rule Getenv_unset_or_empty)+

theorem unset_equals_empty_selector:
  "fst (ClientFromEnv go_openai ([''OPENAI_API_KEY'' \<mapsto> ''sk-test''](''OPENAI_TYPE'' := None))) =
     (None, Some (errorString ''openaix: unknown OPENAI_TYPE: '')) \<and>
   fst (ClientFromEnv go_openai ([''OPENAI_API_KEY'' \<mapsto> ''sk-test''](''OPENAI_TYPE'' \<mapsto> []))) =
     (None, Some (errorString ''openaix: unknown OPENAI_TYPE: ''))"
proof -
  have "fst (ClientFromEnv go_openai ([''OPENAI_API_KEY'' \<mapsto> ''sk-test''](''OPENAI_TYPE'' \<mapsto> []))) =
     (None, Some (errorString ''openaix: unknown OPENAI_TYPE: ''))"
    by (simp add: ClientFromEnv_result Getenv_def errors_New_def)
  with unset_equals_empty [of go_openai "[''OPENAI_API_KEY'' \<mapsto> ''sk-test'']" "''OPENAI_TYPE''"]
  show ?thesis
    by simp
qed

end
